theory Spec2Isabelle
  imports Complex_Main "HOL-Library.AList" "HOL-Library.Product_Lexorder" "HOL-Library.Multiset"
begin

section \<open>Data model\<close>

text \<open>
  The embedding follows \<^verbatim>\<open>backend/task_scheduler.py\<close>, \<^verbatim>\<open>backend/message_broker.py\<close> and
  \<^verbatim>\<open>backend/agent.py\<close> (the tool-aware agent with the reason-act loop).

  Conventions.
  \<^item> A Python \<^verbatim>\<open>dict\<close> is an association list in insertion order: \<open>map_of\<close> looks a key
    up, \<open>AList.update\<close> stores (in place for a known key, at the end for a new one), and
    iteration is the list order.
  \<^item> \<^verbatim>\<open>Optional[str]\<close> is \<open>string option\<close>; Python's truth test on it fails for \<^verbatim>\<open>None\<close>
    and for the empty string, which is why the model tests \<open>a \<noteq> []\<close> under \<open>Some a\<close>.
  \<^item> \<^verbatim>\<open>datetime\<close> values are points on a discrete time line (\<open>nat\<close>); \<^verbatim>\<open>progress\<close> is a
    finite float, read as a real number (the code only compares it and takes \<^verbatim>\<open>min\<close> and
    \<^verbatim>\<open>max\<close>, which are exact on floats).
  \<^item> \<^verbatim>\<open>uuid.uuid4()\<close> and \<^verbatim>\<open>datetime.now()\<close> are outside sources: the environment \<open>env\<close>
    gives the value of the n-th call, and the state counts the calls made so far.
  \<^item> Every call of \<^verbatim>\<open>db_manager.execute_query\<close> is appended to \<open>db_queries\<close>. The
    scheduler and the broker catch and log every database exception, so the in-memory
    state does not depend on what the database answers.
  \<^item> The coroutines never suspend between their first and last statement (the inboxes
    are unbounded queues), so each operation is one state transformer.
  \<^item> The scheduler names message types through its broker handle
    (\<^verbatim>\<open>self.message_broker.MessageType.TASK_ASSIGNMENT\<close>); this is read as the enumeration
    \<^verbatim>\<open>MessageType\<close> of \<^verbatim>\<open>message_broker.py\<close>.
  \<^item> Logging calls are omitted.
\<close>

type_synonym datetime = nat

datatype TaskStatus = PENDING | ASSIGNED | IN_PROGRESS | COMPLETED | FAILED | CANCELLED | BLOCKED

datatype TaskPriority = LOW | MEDIUM | HIGH | CRITICAL

fun priority_value :: "TaskPriority \<Rightarrow> nat" where
  "priority_value LOW = 1"
| "priority_value MEDIUM = 2"
| "priority_value HIGH = 3"
| "priority_value CRITICAL = 4"

datatype MessageType =
  REQUEST | RESPONSE | NOTIFICATION | TASK_ASSIGNMENT | TASK_COMPLETION | BROADCAST | SYSTEM

text \<open>Values stored in a metadata dictionary; \<open>PyIso d\<close> is the text \<^verbatim>\<open>d.isoformat()\<close>.\<close>

datatype pyval = PyNone | PyInt int | PyStr string | PyIso datetime

record Task =
  task_id :: string
  title :: string
  description :: string
  assigned_agent :: "string option"
  created_by :: string
  status :: TaskStatus
  priority :: TaskPriority
  created_at :: datetime
  updated_at :: datetime
  due_date :: "datetime option"
  dependencies :: "string list"
  subtasks :: "string list"
  parent_task :: "string option"
  task_metadata :: "(string \<times> pyval) list"
  progress :: real
  result :: "string option"
  error_message :: "string option"

record Message =
  msg_id :: string
  sender :: string
  recipient :: string
  message_type :: MessageType
  content :: string
  metadata :: "(string \<times> pyval) list"
  timestamp :: datetime
  conversation_id :: "string option"
  requires_response :: bool
  msg_priority :: int

datatype query = InsertTask Task | UpdateTask Task | InsertMessage Message

record env =
  uuid4 :: "nat \<Rightarrow> string"
  datetime_now :: "nat \<Rightarrow> datetime"

text \<open>
  \<open>tasks\<close> and \<open>agent_workloads\<close> are the scheduler's dictionaries, \<open>agent_queues\<close> the
  broker's inboxes (the head of a list is the next message to be received), \<open>broker_db\<close>
  tells whether the broker was built with a database manager.
\<close>

record state =
  tasks :: "(string \<times> Task) list"
  agent_workloads :: "(string \<times> string list) list"
  agent_queues :: "(string \<times> Message list) list"
  broker_db :: bool
  db_queries :: "query list"
  uuid_calls :: nat
  now_calls :: nat

definition init_state :: "bool \<Rightarrow> state" where
  "init_state db =
     \<lparr>tasks = [], agent_workloads = [], agent_queues = [], broker_db = db,
      db_queries = [], uuid_calls = 0, now_calls = 0\<rparr>"

definition NL :: string where
  "NL = [CHR 0x0A]"

definition uuid_next :: "env \<Rightarrow> state \<Rightarrow> string \<times> state" where
  "uuid_next E s = (uuid4 E (uuid_calls s), s\<lparr>uuid_calls := Suc (uuid_calls s)\<rparr>)"

definition clock_next :: "env \<Rightarrow> state \<Rightarrow> datetime \<times> state" where
  "clock_next E s = (datetime_now E (now_calls s), s\<lparr>now_calls := Suc (now_calls s)\<rparr>)"

section \<open>The message broker\<close>

definition register_agent :: "string \<Rightarrow> state \<Rightarrow> state" where
  "register_agent a s =
     (if map_of (agent_queues s) a = None
      then s\<lparr>agent_queues := AList.update a [] (agent_queues s)\<rparr> else s)"

definition unregister_agent :: "string \<Rightarrow> state \<Rightarrow> state" where
  "unregister_agent a s =
     (if map_of (agent_queues s) a \<noteq> None
      then s\<lparr>agent_queues := AList.delete a (agent_queues s)\<rparr> else s)"

definition create_message ::
  "env \<Rightarrow> string \<Rightarrow> string \<Rightarrow> string \<Rightarrow> MessageType \<Rightarrow> (string \<times> pyval) list \<Rightarrow>
   string option \<Rightarrow> bool \<Rightarrow> int \<Rightarrow> state \<Rightarrow> Message \<times> state" where
  "create_message E sndr rcp cnt mt md cid rr pr s =
     (let (u, s1) = uuid_next E s;
          (t, s2) = clock_next E s1
      in (\<lparr>msg_id = u, sender = sndr, recipient = rcp, message_type = mt, content = cnt,
           metadata = md, timestamp = t, conversation_id = cid, requires_response = rr,
           msg_priority = pr\<rparr>, s2))"

definition log_message_to_db :: "Message \<Rightarrow> state \<Rightarrow> state" where
  "log_message_to_db m s =
     (if \<not> broker_db s then s else s\<lparr>db_queries := db_queries s @ [InsertMessage m]\<rparr>)"

definition queue_put :: "string \<Rightarrow> Message \<Rightarrow> state \<Rightarrow> state" where
  "queue_put a m s = s\<lparr>agent_queues := AList.map_entry a (\<lambda>q. q @ [m]) (agent_queues s)\<rparr>"

text \<open>
  The copy built for one recipient of a broadcast: the constructor call passes eight
  fields and leaves \<^verbatim>\<open>requires_response\<close> and \<^verbatim>\<open>priority\<close> to the dataclass defaults.
\<close>

definition broadcast_copy :: "string \<Rightarrow> string \<Rightarrow> Message \<Rightarrow> Message" where
  "broadcast_copy u a m =
     \<lparr>msg_id = u, sender = sender m, recipient = a, message_type = message_type m,
      content = content m, metadata = metadata m, timestamp = timestamp m,
      conversation_id = conversation_id m, requires_response = False, msg_priority = 1\<rparr>"

fun broadcast_loop :: "env \<Rightarrow> Message \<Rightarrow> string list \<Rightarrow> nat \<Rightarrow> state \<Rightarrow> nat \<times> state" where
  "broadcast_loop E m [] success_count s = (success_count, s)"
| "broadcast_loop E m (a # as) success_count s =
     (if a \<noteq> sender m then
        (let (u, s1) = uuid_next E s;
             s2 = queue_put a (broadcast_copy u a m) s1
         in broadcast_loop E m as (success_count + 1) s2)
      else broadcast_loop E m as success_count s)"

definition broadcast_message :: "env \<Rightarrow> Message \<Rightarrow> state \<Rightarrow> bool \<times> state" where
  "broadcast_message E m s =
     (let (success_count, s') = broadcast_loop E m (map fst (agent_queues s)) 0 s
      in (success_count > 0, s'))"

definition send_message :: "env \<Rightarrow> Message \<Rightarrow> state \<Rightarrow> bool \<times> state" where
  "send_message E m s =
     (let s1 = (if broker_db s then log_message_to_db m s else s) in
      if recipient m = ''ALL'' \<or> message_type m = BROADCAST then broadcast_message E m s1
      else if map_of (agent_queues s1) (recipient m) \<noteq> None
           then (True, queue_put (recipient m) m s1)
           else (False, s1))"

section \<open>The task scheduler\<close>

definition save_task_to_db :: "string \<Rightarrow> state \<Rightarrow> state" where
  "save_task_to_db tid s =
     (case map_of (tasks s) tid of
        None \<Rightarrow> s
      | Some t \<Rightarrow> s\<lparr>db_queries := db_queries s @ [InsertTask t]\<rparr>)"

definition update_task_in_db :: "string \<Rightarrow> state \<Rightarrow> state" where
  "update_task_in_db tid s =
     (case map_of (tasks s) tid of
        None \<Rightarrow> s
      | Some t \<Rightarrow> s\<lparr>db_queries := db_queries s @ [UpdateTask t]\<rparr>)"

text \<open>Mutation of the task object stored under \<open>tid\<close>.\<close>

definition set_task :: "string \<Rightarrow> (Task \<Rightarrow> Task) \<Rightarrow> state \<Rightarrow> state" where
  "set_task tid f s = s\<lparr>tasks := AList.map_entry tid f (tasks s)\<rparr>"

definition check_dependencies :: "state \<Rightarrow> Task \<Rightarrow> bool" where
  "check_dependencies s task =
     list_all (\<lambda>dep_id. case map_of (tasks s) dep_id of
                          Some d \<Rightarrow> status d = COMPLETED
                        | None \<Rightarrow> False) (dependencies task)"

definition workload_append :: "string \<Rightarrow> string \<Rightarrow> state \<Rightarrow> state" where
  "workload_append agent tid s =
     (let w = (if map_of (agent_workloads s) agent = None
               then AList.update agent [] (agent_workloads s) else agent_workloads s)
      in s\<lparr>agent_workloads := AList.map_entry agent (\<lambda>ids. ids @ [tid]) w\<rparr>)"

text \<open>\<^verbatim>\<open>list.remove\<close> deletes the first occurrence; the code guards it by a membership test.\<close>

definition workload_remove :: "string \<Rightarrow> state \<Rightarrow> state" where
  "workload_remove tid s =
     (case map_of (tasks s) tid of
        None \<Rightarrow> s
      | Some task \<Rightarrow>
          (case assigned_agent task of
             None \<Rightarrow> s
           | Some a \<Rightarrow>
               if a \<noteq> [] \<and> map_of (agent_workloads s) a \<noteq> None
               then s\<lparr>agent_workloads := AList.map_entry a (remove1 tid) (agent_workloads s)\<rparr>
               else s))"

definition assign_task :: "env \<Rightarrow> string \<Rightarrow> string \<Rightarrow> state \<Rightarrow> bool \<times> state" where
  "assign_task E tid agent s =
     (case map_of (tasks s) tid of
        None \<Rightarrow> (False, s)
      | Some task \<Rightarrow>
          if \<not> check_dependencies s task then
            (False, update_task_in_db tid (set_task tid (\<lambda>t. t\<lparr>status := BLOCKED\<rparr>) s))
          else
            (let (now, s1) = clock_next E s;
                 s2 = set_task tid
                        (\<lambda>t. t\<lparr>assigned_agent := Some agent, status := ASSIGNED,
                               updated_at := now\<rparr>) s1;
                 s3 = workload_append agent tid s2;
                 (msg, s4) = create_message E ''TaskScheduler'' agent
                               (''New task assigned: '' @ title task @ NL @ NL @
                                ''Description: '' @ description task)
                               TASK_ASSIGNMENT
                               [(''task_id'', PyStr tid),
                                (''priority'', PyInt (int (priority_value (priority task)))),
                                (''due_date'', case due_date task of
                                                 None \<Rightarrow> PyNone | Some d \<Rightarrow> PyIso d)]
                               None False 1 s3;
                 (sent, s5) = send_message E msg s4
             in (True, update_task_in_db tid s5)))"

text \<open>
  One iteration of the loop of \<^verbatim>\<open>_check_dependent_tasks\<close>, for the task stored under
  \<open>tid\<close>, and the loop over the dictionary.
\<close>

definition unblock_step :: "env \<Rightarrow> string \<Rightarrow> state \<Rightarrow> string \<Rightarrow> state" where
  "unblock_step E completed_task_id s tid =
     (case map_of (tasks s) tid of
        None \<Rightarrow> s
      | Some task \<Rightarrow>
          if completed_task_id \<in> set (dependencies task) \<and> status task = BLOCKED \<and>
             check_dependencies s task
          then (let (now, s1) = clock_next E s;
                    s2 = set_task tid (\<lambda>t. t\<lparr>status := PENDING, updated_at := now\<rparr>) s1
                in update_task_in_db tid s2)
          else s)"

definition check_dependent_tasks :: "env \<Rightarrow> string \<Rightarrow> state \<Rightarrow> state" where
  "check_dependent_tasks E completed_task_id s =
     foldl (unblock_step E completed_task_id) s (map fst (tasks s))"

definition update_task_progress ::
  "env \<Rightarrow> string \<Rightarrow> real \<Rightarrow> TaskStatus option \<Rightarrow> state \<Rightarrow> bool \<times> state" where
  "update_task_progress E tid p st s =
     (case map_of (tasks s) tid of
        None \<Rightarrow> (False, s)
      | Some task \<Rightarrow>
          (let (now, s1) = clock_next E s;
               s2 = set_task tid (\<lambda>t. t\<lparr>progress := max 0 (min 1 p), updated_at := now\<rparr>) s1;
               s3 = (case st of
                       Some st' \<Rightarrow> set_task tid (\<lambda>t. t\<lparr>status := st'\<rparr>) s2
                     | None \<Rightarrow>
                         if p \<ge> 1 then set_task tid (\<lambda>t. t\<lparr>status := COMPLETED\<rparr>) s2
                         else if p > 0 then set_task tid (\<lambda>t. t\<lparr>status := IN_PROGRESS\<rparr>) s2
                         else s2);
               s4 = update_task_in_db tid s3;
               s5 = (if map_option status (map_of (tasks s4) tid) = Some COMPLETED
                     then check_dependent_tasks E tid s4 else s4)
           in (True, s5)))"




text \<open>
  \<^verbatim>\<open>list.sort(key=..., reverse=True)\<close> is a stable sort in descending key order: elements
  with equal keys keep their order. It is the reversal of the stable ascending sort of
  the reversed list.
\<close>

definition py_sort_reverse :: "('a \<Rightarrow> 'k::linorder) \<Rightarrow> 'a list \<Rightarrow> 'a list" where
  "py_sort_reverse f xs = rev (sort_key f (rev xs))"

definition sort_key_of :: "Task \<Rightarrow> nat \<times> datetime" where
  "sort_key_of t = (priority_value (priority t), created_at t)"

definition is_available :: "string option \<Rightarrow> state \<Rightarrow> Task \<Rightarrow> bool" where
  "is_available agent_id s task =
     (status task = PENDING \<and> check_dependencies s task \<and>
      (agent_id = None \<or> assigned_agent task = None \<or> assigned_agent task = agent_id))"

definition get_available_tasks :: "string option \<Rightarrow> state \<Rightarrow> Task list" where
  "get_available_tasks agent_id s =
     py_sort_reverse sort_key_of (filter (is_available agent_id s) (map snd (tasks s)))"

definition create_task ::
  "env \<Rightarrow> string \<Rightarrow> string \<Rightarrow> string \<Rightarrow> string option \<Rightarrow> TaskPriority \<Rightarrow> datetime option \<Rightarrow>
   string list \<Rightarrow> string option \<Rightarrow> (string \<times> pyval) list \<Rightarrow> state \<Rightarrow> string \<times> state" where
  "create_task E ttl descr creator agent prio due deps parent md s =
     (let (u, s1) = uuid_next E s;
          (c, s2) = clock_next E s1;
          (c', s3) = clock_next E s2;
          task = \<lparr>task_id = u, title = ttl, description = descr, assigned_agent = agent,
                  created_by = creator, status = PENDING, priority = prio, created_at = c,
                  updated_at = c', due_date = due, dependencies = deps, subtasks = [],
                  parent_task = parent, task_metadata = md, progress = 0, result = None,
                  error_message = None\<rparr>;
          s4 = s3\<lparr>tasks := AList.update u task (tasks s3)\<rparr>;
          s5 = (case parent of
                  None \<Rightarrow> s4
                | Some p \<Rightarrow>
                    if p \<noteq> [] \<and> map_of (tasks s4) p \<noteq> None
                    then set_task p (\<lambda>t. t\<lparr>subtasks := subtasks t @ [u]\<rparr>) s4
                    else s4);
          s6 = save_task_to_db u s5;
          s7 = (case agent of
                  None \<Rightarrow> s6
                | Some a \<Rightarrow> if a \<noteq> [] then snd (assign_task E u a s6) else s6)
      in (u, s7))"


section \<open>The tool-aware agent\<close>



datatype json =
  JNull | JBool bool | JInt int | JFloat real | JString string | JArray "json list"
| JObject "(string \<times> json) list"




subsection \<open>String operations of Python\<close>











subsection \<open>The language-model provider and the tools\<close>








subsection \<open>Parsing a response and the reason-act loop\<close>













section \<open>Notions used in the statements, and example data\<close>


text \<open>An environment, a broker with three registered agents, and a broadcast by a user.\<close>

definition demo_env :: env where
  "demo_env = \<lparr>uuid4 = (\<lambda>n. ''uuid-'' @ replicate n (CHR ''i'')),
               datetime_now = (\<lambda>n. 100 + n)\<rparr>"



text \<open>The dependency list stored for a task identifier, and the dependency graph.\<close>

definition deps_of :: "state \<Rightarrow> string \<Rightarrow> string list option" where
  "deps_of s k = map_option dependencies (map_of (tasks s) k)"



text \<open>
  The test of the unblock sweep on one task, and the relation between a task and its
  unblocked version: equal but for the status and the time of the update.
\<close>

definition unblockable :: "string \<Rightarrow> state \<Rightarrow> Task \<Rightarrow> bool" where
  "unblockable completed_task_id s task =
     (completed_task_id \<in> set (dependencies task) \<and> status task = BLOCKED \<and>
      check_dependencies s task)"

definition unblocked_copy :: "Task \<Rightarrow> Task \<Rightarrow> bool" where
  "unblocked_copy t t' = (t' = t\<lparr>status := PENDING, updated_at := updated_at t'\<rparr>)"

definition is_completed :: "state \<Rightarrow> string \<Rightarrow> bool" where
  "is_completed s k =
     (case map_of (tasks s) k of Some d \<Rightarrow> status d = COMPLETED | None \<Rightarrow> False)"

text \<open>
  A scheduler run: agent \<open>A1\<close> is registered; task \<open>T1\<close> is created unassigned; task
  \<open>T2\<close>, which depends on \<open>T1\<close>, is created for \<open>A1\<close> and is blocked at once; then the
  progress of \<open>T1\<close> is reported as \<open>1.0\<close>.
\<close>

definition demo_T1 :: Task where
  "demo_T1 =
     \<lparr>task_id = ''uuid-'', title = ''T1'', description = ''first'', assigned_agent = None,
      created_by = ''u'', status = PENDING, priority = MEDIUM, created_at = 100,
      updated_at = 101, due_date = None, dependencies = [], subtasks = [],
      parent_task = None, task_metadata = [], progress = 0, result = None,
      error_message = None\<rparr>"

definition demo_T2 :: Task where
  "demo_T2 =
     \<lparr>task_id = ''uuid-i'', title = ''T2'', description = ''second'',
      assigned_agent = Some ''A1'', created_by = ''u'', status = PENDING, priority = MEDIUM,
      created_at = 102, updated_at = 103, due_date = None, dependencies = [''uuid-''],
      subtasks = [], parent_task = None, task_metadata = [], progress = 0, result = None,
      error_message = None\<rparr>"

definition demo_s0 :: state where
  "demo_s0 = register_agent ''A1'' (init_state False)"

definition demo_s1 :: state where
  "demo_s1 = snd (create_task demo_env ''T1'' ''first'' ''u'' None MEDIUM None [] None [] demo_s0)"

definition demo_s2 :: state where
  "demo_s2 = snd (create_task demo_env ''T2'' ''second'' ''u'' (Some ''A1'') MEDIUM None
                    [''uuid-''] None [] demo_s1)"

definition demo_s3 :: state where
  "demo_s3 = snd (update_task_progress demo_env ''uuid-'' 1 None demo_s2)"

text \<open>The same run, stopped where \<open>T1\<close> has been marked completed and the sweep is about to start.\<close>

definition demo_mid :: state where
  "demo_mid = set_task ''uuid-'' (\<lambda>t. t\<lparr>status := COMPLETED\<rparr>) demo_s2"













text \<open>
  The order that \<^verbatim>\<open>get_available_tasks\<close> produces: higher priority first and, within one
  priority, the later creation time first.
\<close>

definition newest_first :: "Task \<Rightarrow> Task \<Rightarrow> bool" where
  "newest_first a b =
     (priority_value (priority a) > priority_value (priority b) \<or>
      (priority_value (priority a) = priority_value (priority b) \<and> created_at a \<ge> created_at b))"

text \<open>The order of the specification: within one priority, the earlier creation time first.\<close>

definition oldest_first :: "Task \<Rightarrow> Task \<Rightarrow> bool" where
  "oldest_first a b =
     (priority_value (priority a) > priority_value (priority b) \<or>
      (priority_value (priority a) = priority_value (priority b) \<and> created_at a \<le> created_at b))"

text \<open>Two pending tasks of one priority, created one after the other.\<close>

definition demo_two :: state where
  "demo_two = snd (create_task demo_env ''T3'' ''third'' ''u'' None MEDIUM None [] None [] demo_s1)"

definition demo_T3 :: Task where
  "demo_T3 =
     \<lparr>task_id = ''uuid-i'', title = ''T3'', description = ''third'', assigned_agent = None,
      created_by = ''u'', status = PENDING, priority = MEDIUM, created_at = 102,
      updated_at = 103, due_date = None, dependencies = [], subtasks = [],
      parent_task = None, task_metadata = [], progress = 0, result = None,
      error_message = None\<rparr>"













section \<open>Properties of the message broker\<close>

lemma map_fst_map_entry [simp]: "map fst (AList.map_entry k f xs) = map fst xs"
  by (induction xs) auto

lemma queue_put_simps [simp]:
  "agent_queues (queue_put a c s) = AList.map_entry a (\<lambda>q. q @ [c]) (agent_queues s)"
  "tasks (queue_put a c s) = tasks s"
  "agent_workloads (queue_put a c s) = agent_workloads s"
  "broker_db (queue_put a c s) = broker_db s"
  "db_queries (queue_put a c s) = db_queries s"
  "uuid_calls (queue_put a c s) = uuid_calls s"
  "now_calls (queue_put a c s) = now_calls s"
  by (simp_all add: queue_put_def)

lemma broadcast_loop_frame:
  "broadcast_loop E m as c s = (c', s') \<Longrightarrow>
     c' = c + length (filter (\<lambda>b. b \<noteq> sender m) as) \<and>
     uuid_calls s' = uuid_calls s + length (filter (\<lambda>b. b \<noteq> sender m) as) \<and>
     map fst (agent_queues s') = map fst (agent_queues s) \<and>
     tasks s' = tasks s \<and> agent_workloads s' = agent_workloads s \<and>
     broker_db s' = broker_db s \<and> db_queries s' = db_queries s \<and> now_calls s' = now_calls s"
proof (induction as arbitrary: c s)
  case Nil
  then show ?case by simp
next
  case (Cons a as)
  show ?case
  proof (cases "a = sender m")
    case True
    with Cons.prems have "broadcast_loop E m as c s = (c', s')" by simp
    from Cons.IH [OF this] True show ?thesis by simp
  next
    case False
    let ?s2 = "queue_put a (broadcast_copy (uuid4 E (uuid_calls s)) a m) (s\<lparr>uuid_calls := Suc (uuid_calls s)\<rparr>)"
    from False Cons.prems have "broadcast_loop E m as (c + 1) ?s2 = (c', s')"
      by (simp add: uuid_next_def)
    from Cons.IH [OF this] False show ?thesis by simp
  qed
qed




lemma log_message_to_db_simps [simp]:
  "agent_queues (log_message_to_db m s) = agent_queues s"
  "uuid_calls (log_message_to_db m s) = uuid_calls s"
  "tasks (log_message_to_db m s) = tasks s"
  "agent_workloads (log_message_to_db m s) = agent_workloads s"
  "now_calls (log_message_to_db m s) = now_calls s"
  "broker_db (log_message_to_db m s) = broker_db s"
  by (simp_all add: log_message_to_db_def)








section \<open>Properties of the task scheduler\<close>

lemma broadcast_loop_snd_simps [simp]:
  "tasks (snd (broadcast_loop E m as c s)) = tasks s"
  "agent_workloads (snd (broadcast_loop E m as c s)) = agent_workloads s"
  "broker_db (snd (broadcast_loop E m as c s)) = broker_db s"
  "db_queries (snd (broadcast_loop E m as c s)) = db_queries s"
  "now_calls (snd (broadcast_loop E m as c s)) = now_calls s"
  "map fst (agent_queues (snd (broadcast_loop E m as c s))) = map fst (agent_queues s)"
  using broadcast_loop_frame [OF surjective_pairing, of E m as c s] by simp_all

lemma send_message_snd_simps [simp]:
  "tasks (snd (send_message E m s)) = tasks s"
  "agent_workloads (snd (send_message E m s)) = agent_workloads s"
  "broker_db (snd (send_message E m s)) = broker_db s"
  "now_calls (snd (send_message E m s)) = now_calls s"
  "map fst (agent_queues (snd (send_message E m s))) = map fst (agent_queues s)"
  by (simp_all add: send_message_def broadcast_message_def split_def Let_def)

lemma create_message_simps [simp]:
  "fst (create_message E sndr rcp cnt mt md cid rr pr s) =
     \<lparr>msg_id = uuid4 E (uuid_calls s), sender = sndr, recipient = rcp, message_type = mt,
      content = cnt, metadata = md, timestamp = datetime_now E (now_calls s),
      conversation_id = cid, requires_response = rr, msg_priority = pr\<rparr>"
  "snd (create_message E sndr rcp cnt mt md cid rr pr s) =
     s\<lparr>uuid_calls := Suc (uuid_calls s), now_calls := Suc (now_calls s)\<rparr>"
  by (simp_all add: create_message_def uuid_next_def clock_next_def split_def Let_def)

lemma clock_next_simps [simp]:
  "fst (clock_next E s) = datetime_now E (now_calls s)"
  "snd (clock_next E s) = s\<lparr>now_calls := Suc (now_calls s)\<rparr>"
  by (simp_all add: clock_next_def)

lemma uuid_next_simps [simp]:
  "fst (uuid_next E s) = uuid4 E (uuid_calls s)"
  "snd (uuid_next E s) = s\<lparr>uuid_calls := Suc (uuid_calls s)\<rparr>"
  by (simp_all add: uuid_next_def)

lemma set_task_simps [simp]:
  "tasks (set_task tid f s) = AList.map_entry tid f (tasks s)"
  "agent_workloads (set_task tid f s) = agent_workloads s"
  "agent_queues (set_task tid f s) = agent_queues s"
  "broker_db (set_task tid f s) = broker_db s"
  "db_queries (set_task tid f s) = db_queries s"
  "uuid_calls (set_task tid f s) = uuid_calls s"
  "now_calls (set_task tid f s) = now_calls s"
  by (simp_all add: set_task_def)

lemma update_task_in_db_simps [simp]:
  "tasks (update_task_in_db tid s) = tasks s"
  "agent_workloads (update_task_in_db tid s) = agent_workloads s"
  "agent_queues (update_task_in_db tid s) = agent_queues s"
  "broker_db (update_task_in_db tid s) = broker_db s"
  "uuid_calls (update_task_in_db tid s) = uuid_calls s"
  "now_calls (update_task_in_db tid s) = now_calls s"
  by (simp_all add: update_task_in_db_def split: option.splits)

lemma save_task_to_db_simps [simp]:
  "tasks (save_task_to_db tid s) = tasks s"
  "agent_workloads (save_task_to_db tid s) = agent_workloads s"
  "agent_queues (save_task_to_db tid s) = agent_queues s"
  "broker_db (save_task_to_db tid s) = broker_db s"
  "uuid_calls (save_task_to_db tid s) = uuid_calls s"
  "now_calls (save_task_to_db tid s) = now_calls s"
  by (simp_all add: save_task_to_db_def split: option.splits)

lemma workload_append_simps [simp]:
  "tasks (workload_append a tid s) = tasks s"
  "agent_queues (workload_append a tid s) = agent_queues s"
  "broker_db (workload_append a tid s) = broker_db s"
  "db_queries (workload_append a tid s) = db_queries s"
  "uuid_calls (workload_append a tid s) = uuid_calls s"
  "now_calls (workload_append a tid s) = now_calls s"
  by (simp_all add: workload_append_def Let_def)

lemma workload_remove_simps [simp]:
  "tasks (workload_remove tid s) = tasks s"
  "agent_queues (workload_remove tid s) = agent_queues s"
  "broker_db (workload_remove tid s) = broker_db s"
  "db_queries (workload_remove tid s) = db_queries s"
  "uuid_calls (workload_remove tid s) = uuid_calls s"
  "now_calls (workload_remove tid s) = now_calls s"
  by (simp_all add: workload_remove_def split: option.splits)



lemma deps_of_same_tasks: "tasks s' = tasks s \<Longrightarrow> deps_of s' k = deps_of s k"
  by (simp add: deps_of_def)



lemma deps_of_save [simp]: "deps_of (save_task_to_db tid s) k = deps_of s k"
  by (simp add: deps_of_def)


lemma send_message_db_queries [simp]:
  "db_queries (snd (send_message E m s)) =
     (if broker_db s then db_queries s @ [InsertMessage m] else db_queries s)"
  by (simp add: send_message_def broadcast_message_def split_def Let_def log_message_to_db_def
      queue_put_def)

lemma update_task_in_db_queries [simp]:
  "db_queries (update_task_in_db tid s) =
     db_queries s @ (case map_of (tasks s) tid of None \<Rightarrow> [] | Some t \<Rightarrow> [UpdateTask t])"
  by (simp add: update_task_in_db_def split: option.splits)

lemma save_task_to_db_queries [simp]:
  "db_queries (save_task_to_db tid s) =
     db_queries s @ (case map_of (tasks s) tid of None \<Rightarrow> [] | Some t \<Rightarrow> [InsertTask t])"
  by (simp add: save_task_to_db_def split: option.splits)







lemma check_dependencies_iff:
  "check_dependencies s t = (\<forall>d \<in> set (dependencies t). is_completed s d)"
  by (auto simp: check_dependencies_def is_completed_def list_all_iff split: option.splits)

lemma unblock_step_tasks:
  "map_of (tasks (unblock_step E c s k)) k' =
     (if k' = k
      then map_option (\<lambda>t. if unblockable c s t
                            then t\<lparr>status := PENDING, updated_at := datetime_now E (now_calls s)\<rparr>
                            else t) (map_of (tasks s) k)
      else map_of (tasks s) k')"
  by (simp add: unblock_step_def unblockable_def split_def Let_def map_of_map_entry
      split: option.splits)

lemma unblock_step_frame [simp]:
  "agent_workloads (unblock_step E c s k) = agent_workloads s"
  "agent_queues (unblock_step E c s k) = agent_queues s"
  "uuid_calls (unblock_step E c s k) = uuid_calls s"
  "broker_db (unblock_step E c s k) = broker_db s"
  "map fst (tasks (unblock_step E c s k)) = map fst (tasks s)"
  by (simp_all add: unblock_step_def split_def Let_def split: option.splits)

lemma unblock_step_completed: "is_completed (unblock_step E c s k) d = is_completed s d"
  by (cases "map_of (tasks s) d")
     (auto simp: is_completed_def unblock_step_tasks unblockable_def split: if_splits)

lemma unblock_step_unblockable: "unblockable c' (unblock_step E c s k) t = unblockable c' s t"
  by (simp add: unblockable_def check_dependencies_iff unblock_step_completed)

lemma sweep_fold_frame:
  "agent_workloads (foldl (unblock_step E c) s ks) = agent_workloads s \<and>
   agent_queues (foldl (unblock_step E c) s ks) = agent_queues s \<and>
   uuid_calls (foldl (unblock_step E c) s ks) = uuid_calls s \<and>
   broker_db (foldl (unblock_step E c) s ks) = broker_db s \<and>
   map fst (tasks (foldl (unblock_step E c) s ks)) = map fst (tasks s)"
  by (induction ks arbitrary: s) simp_all

lemma sweep_fold_completed:
  "is_completed (foldl (unblock_step E c) s ks) d = is_completed s d"
  by (induction ks arbitrary: s) (simp_all add: unblock_step_completed)

lemma sweep_fold_keeps:
  "map_of (tasks s) k = Some t \<Longrightarrow> k \<notin> set ks \<or> \<not> unblockable c s t \<Longrightarrow>
   map_of (tasks (foldl (unblock_step E c) s ks)) k = Some t"
proof (induction ks arbitrary: s)
  case Nil
  then show ?case by simp
next
  case (Cons j ks)
  have "map_of (tasks (unblock_step E c s j)) k = Some t"
    using Cons.prems by (auto simp: unblock_step_tasks)
  moreover have "k \<notin> set ks \<or> \<not> unblockable c (unblock_step E c s j) t"
    using Cons.prems by (auto simp: unblock_step_unblockable)
  ultimately show ?case using Cons.IH by simp
qed

lemma sweep_fold_unblocks:
  "map_of (tasks s) k = Some t \<Longrightarrow> k \<in> set ks \<Longrightarrow> unblockable c s t \<Longrightarrow>
   \<exists>t'. map_of (tasks (foldl (unblock_step E c) s ks)) k = Some t' \<and> unblocked_copy t t'"
proof (induction ks arbitrary: s)
  case Nil
  then show ?case by simp
next
  case (Cons j ks)
  let ?s1 = "unblock_step E c s j"
  show ?case
  proof (cases "j = k")
    case True
    let ?t1 = "t\<lparr>status := PENDING, updated_at := datetime_now E (now_calls s)\<rparr>"
    have m: "map_of (tasks ?s1) k = Some ?t1"
      using Cons.prems True by (simp add: unblock_step_tasks)
    have "\<not> unblockable c ?s1 ?t1" by (simp add: unblockable_def)
    with sweep_fold_keeps [OF m] have "map_of (tasks (foldl (unblock_step E c) ?s1 ks)) k = Some ?t1"
      by blast
    moreover have "unblocked_copy t ?t1" by (simp add: unblocked_copy_def)
    ultimately show ?thesis by simp
  next
    case False
    have m: "map_of (tasks ?s1) k = Some t"
      using Cons.prems False by (simp add: unblock_step_tasks)
    have "k \<in> set ks" using Cons.prems False by simp
    moreover have "unblockable c ?s1 t"
      using Cons.prems by (simp add: unblock_step_unblockable)
    ultimately show ?thesis using Cons.IH [OF m] by simp
  qed
qed

lemma map_of_Some_key: "map_of xs k = Some v \<Longrightarrow> k \<in> set (map fst xs)"
  by (metis map_of_eq_None_iff option.distinct(1) set_map)

text \<open>
  Claim C3, as amended. The sweep run when a task completes turns every blocked task
  that depends on the completed task and whose dependencies are all completed into a
  pending task: status and time of update change, every other field (the assigned agent
  too) stays. Every other task is left as it is. The sweep re-assigns nothing: it puts no
  message on any inbox, changes no workload list and mints no identifier.
\<close>

theorem check_dependent_tasks_unblocks:
  assumes t: "map_of (tasks s) k = Some t"
  shows "(\<exists>t'. map_of (tasks (check_dependent_tasks E c s)) k = Some t' \<and>
              (if unblockable c s t then unblocked_copy t t' else t' = t)) \<and>
         agent_queues (check_dependent_tasks E c s) = agent_queues s \<and>
         agent_workloads (check_dependent_tasks E c s) = agent_workloads s \<and>
         uuid_calls (check_dependent_tasks E c s) = uuid_calls s \<and>
         map fst (tasks (check_dependent_tasks E c s)) = map fst (tasks s)"
proof -
  have k: "k \<in> set (map fst (tasks s))" using t by (rule map_of_Some_key)
  have "\<exists>t'. map_of (tasks (check_dependent_tasks E c s)) k = Some t' \<and>
              (if unblockable c s t then unblocked_copy t t' else t' = t)"
  proof (cases "unblockable c s t")
    case True
    with sweep_fold_unblocks [OF t k True] show ?thesis
      by (simp add: check_dependent_tasks_def)
  next
    case False
    with sweep_fold_keeps [OF t, of "map fst (tasks s)" c E] show ?thesis
      by (simp add: check_dependent_tasks_def)
  qed
  then show ?thesis
    using sweep_fold_frame [of E c s "map fst (tasks s)"]
    by (simp add: check_dependent_tasks_def)
qed

lemma demo_s0_eq:
  "demo_s0 = \<lparr>tasks = [], agent_workloads = [], agent_queues = [(''A1'', [])],
              broker_db = False, db_queries = [], uuid_calls = 0, now_calls = 0\<rparr>"
  by (simp add: demo_s0_def register_agent_def init_state_def)

lemma demo_s1_eq:
  "demo_s1 = \<lparr>tasks = [(''uuid-'', demo_T1)], agent_workloads = [],
              agent_queues = [(''A1'', [])], broker_db = False,
              db_queries = [InsertTask demo_T1], uuid_calls = 1, now_calls = 2\<rparr>"
  by (simp add: demo_s1_def demo_s0_eq create_task_def split_def Let_def demo_env_def
      demo_T1_def save_task_to_db_def)

lemma demo_s2_eq:
  "demo_s2 = \<lparr>tasks = [(''uuid-'', demo_T1), (''uuid-i'', demo_T2\<lparr>status := BLOCKED\<rparr>)],
              agent_workloads = [], agent_queues = [(''A1'', [])], broker_db = False,
              db_queries = [InsertTask demo_T1, InsertTask demo_T2,
                            UpdateTask (demo_T2\<lparr>status := BLOCKED\<rparr>)],
              uuid_calls = 2, now_calls = 4\<rparr>"
  by (simp add: demo_s2_def demo_s1_eq create_task_def split_def Let_def demo_env_def
      demo_T1_def demo_T2_def save_task_to_db_def assign_task_def check_dependencies_def
      set_task_def update_task_in_db_def)

lemma demo_s3_eq:
  "demo_s3 =
     \<lparr>tasks = [(''uuid-'', demo_T1\<lparr>status := COMPLETED, progress := 1, updated_at := 104\<rparr>),
               (''uuid-i'', demo_T2\<lparr>status := PENDING, updated_at := 105\<rparr>)],
      agent_workloads = [], agent_queues = [(''A1'', [])], broker_db = False,
      db_queries = [InsertTask demo_T1, InsertTask demo_T2,
                    UpdateTask (demo_T2\<lparr>status := BLOCKED\<rparr>),
                    UpdateTask (demo_T1\<lparr>status := COMPLETED, progress := 1, updated_at := 104\<rparr>),
                    UpdateTask (demo_T2\<lparr>status := PENDING, updated_at := 105\<rparr>)],
      uuid_calls = 2, now_calls = 6\<rparr>"
  by (simp add: demo_s3_def demo_s2_eq update_task_progress_def split_def Let_def demo_env_def
      demo_T1_def demo_T2_def check_dependencies_def check_dependent_tasks_def
      unblock_step_def set_task_def update_task_in_db_def)

lemma unblocked_copy_fields:
  assumes "unblocked_copy t t'"
  shows "status t' = PENDING" and "assigned_agent t' = assigned_agent t"
proof -
  from assms have e: "t' = t\<lparr>status := PENDING, updated_at := updated_at t'\<rparr>"
    by (simp add: unblocked_copy_def)
  show "status t' = PENDING" by (subst e) simp
  show "assigned_agent t' = assigned_agent t" by (subst e) simp
qed

text \<open>
  The claim as stated fails: \<open>T2\<close> is blocked and carries the assigned agent \<open>A1\<close>; when
  \<open>T1\<close> completes, the sweep leaves \<open>T2\<close> pending, and neither the inbox nor the workload
  of \<open>A1\<close> receives anything.
\<close>

theorem unblock_sweep_reassign_counterexample:
  "map_of (tasks demo_s2) ''uuid-i'' = Some (demo_T2\<lparr>status := BLOCKED\<rparr>) \<and>
   assigned_agent demo_T2 = Some ''A1'' \<and> dependencies demo_T2 = [''uuid-''] \<and>
   map_option status (map_of (tasks demo_s3) ''uuid-'') = Some COMPLETED \<and>
   map_of (tasks demo_s3) ''uuid-i'' = Some (demo_T2\<lparr>status := PENDING, updated_at := 105\<rparr>) \<and>
   agent_queues demo_s3 = [(''A1'', [])] \<and> agent_workloads demo_s3 = []"
  by (simp add: demo_s2_eq demo_s3_eq) (simp add: demo_T2_def)

theorem check_dependent_tasks_unblocks_witness:
  "map_of (tasks demo_mid) ''uuid-i'' = Some (demo_T2\<lparr>status := BLOCKED\<rparr>) \<and>
   unblockable ''uuid-'' demo_mid (demo_T2\<lparr>status := BLOCKED\<rparr>) \<and>
   (\<exists>t'. map_of (tasks (check_dependent_tasks demo_env ''uuid-'' demo_mid)) ''uuid-i'' = Some t' \<and>
         status t' = PENDING \<and> assigned_agent t' = Some ''A1'') \<and>
   agent_queues (check_dependent_tasks demo_env ''uuid-'' demo_mid) = [(''A1'', [])] \<and>
   agent_workloads (check_dependent_tasks demo_env ''uuid-'' demo_mid) = []"
proof -
  have m: "map_of (tasks demo_mid) ''uuid-i'' = Some (demo_T2\<lparr>status := BLOCKED\<rparr>)"
    by (simp add: demo_mid_def demo_s2_eq)
  have u: "unblockable ''uuid-'' demo_mid (demo_T2\<lparr>status := BLOCKED\<rparr>)"
    by (simp add: unblockable_def check_dependencies_def demo_mid_def demo_s2_eq demo_T2_def)
  have q: "agent_queues demo_mid = [(''A1'', [])]" "agent_workloads demo_mid = []"
    by (simp_all add: demo_mid_def demo_s2_eq)
  note t = check_dependent_tasks_unblocks [OF m, of demo_env "''uuid-''"]
  from t u obtain t' where
    t': "map_of (tasks (check_dependent_tasks demo_env ''uuid-'' demo_mid)) ''uuid-i'' = Some t'"
    and c: "unblocked_copy (demo_T2\<lparr>status := BLOCKED\<rparr>) t'"
    by auto
  from unblocked_copy_fields [OF c] have "status t' = PENDING \<and> assigned_agent t' = Some ''A1''"
    by (simp add: demo_T2_def)
  with t' t m u q show ?thesis by auto
qed










lemma check_dependent_tasks_frame [simp]:
  "agent_workloads (check_dependent_tasks E c s) = agent_workloads s"
  "agent_queues (check_dependent_tasks E c s) = agent_queues s"
  "uuid_calls (check_dependent_tasks E c s) = uuid_calls s"
  "broker_db (check_dependent_tasks E c s) = broker_db s"
  "map fst (tasks (check_dependent_tasks E c s)) = map fst (tasks s)"
  using sweep_fold_frame [of E c s "map fst (tasks s)"]
  by (simp_all add: check_dependent_tasks_def)

























lemma newest_first_key: "newest_first a b = (sort_key_of b \<le> sort_key_of a)"
  by (auto simp: newest_first_def sort_key_of_def)

lemma py_sort_reverse_mset: "mset (py_sort_reverse f xs) = mset xs"
  by (simp add: py_sort_reverse_def)

lemma py_sort_reverse_sorted: "sorted_wrt (\<lambda>a b. f b \<le> f a) (py_sort_reverse f xs)"
proof -
  have "sorted (map f (sort_key f (rev xs)))" by (rule sorted_sort_key)
  then have "sorted_wrt (\<lambda>a b. f a \<le> f b) (sort_key f (rev xs))"
    by (simp add: sorted_map)
  then show ?thesis
    by (simp add: py_sort_reverse_def sorted_wrt_rev)
qed

lemma py_sort_reverse_stable:
  "filter (\<lambda>y. f y = k) (py_sort_reverse f xs) = filter (\<lambda>y. f y = k) xs"
  by (simp add: py_sort_reverse_def rev_filter [symmetric] sort_key_stable)

text \<open>
  Claim C5, as amended. \<^verbatim>\<open>get_available_tasks\<close> returns exactly the pending tasks whose
  dependencies are all completed (restricted, when an agent is given, to unassigned tasks
  and tasks assigned to that agent), each as often as it is stored, sorted by priority
  descending and, within equal priority, by creation time descending (newest first);
  tasks equal in both keep the order of the task dictionary.
\<close>

theorem get_available_tasks_sorted:
  "mset (get_available_tasks agent_id s) =
     mset (filter (is_available agent_id s) (map snd (tasks s))) \<and>
   sorted_wrt newest_first (get_available_tasks agent_id s) \<and>
   (\<forall>k. filter (\<lambda>t. sort_key_of t = k) (get_available_tasks agent_id s) =
        filter (\<lambda>t. sort_key_of t = k) (filter (is_available agent_id s) (map snd (tasks s))))"
proof -
  have "sorted_wrt (\<lambda>a b. sort_key_of b \<le> sort_key_of a) (get_available_tasks agent_id s)"
    unfolding get_available_tasks_def by (rule py_sort_reverse_sorted)
  then have "sorted_wrt newest_first (get_available_tasks agent_id s)"
    by (simp add: newest_first_key [abs_def])
  then show ?thesis
    by (simp add: get_available_tasks_def py_sort_reverse_mset py_sort_reverse_stable)
qed

lemma demo_two_tasks: "tasks demo_two = [(''uuid-'', demo_T1), (''uuid-i'', demo_T3)]"
  by (simp add: demo_two_def demo_s1_eq create_task_def split_def Let_def demo_env_def
      demo_T3_def demo_T1_def)

lemma demo_two_available: "get_available_tasks None demo_two = [demo_T3, demo_T1]"
  by (simp add: get_available_tasks_def demo_two_tasks is_available_def check_dependencies_def
      py_sort_reverse_def sort_key_of_def demo_T1_def demo_T3_def)

text \<open>
  The claim as stated fails: the two tasks have one priority, \<open>T1\<close> is the older one, and
  the newer task \<open>T3\<close> comes first.
\<close>

theorem oldest_first_counterexample:
  "get_available_tasks None demo_two = [demo_T3, demo_T1] \<and>
   priority demo_T3 = priority demo_T1 \<and> created_at demo_T1 < created_at demo_T3 \<and>
   \<not> sorted_wrt oldest_first (get_available_tasks None demo_two)"
  by (simp add: demo_two_available) (simp add: oldest_first_def demo_T1_def demo_T3_def)

theorem get_available_tasks_sorted_witness:
  "sorted_wrt newest_first [demo_T3, demo_T1] \<and>
   mset [demo_T3, demo_T1] = mset (filter (is_available None demo_two) (map snd (tasks demo_two)))"
  using get_available_tasks_sorted [of None demo_two]
  by (simp add: demo_two_available)

section \<open>Properties of the reason-act loop\<close>

















end
